theory Spec2Isabelle
  imports Complex_Main "HOL-Library.Sublist" "HOL-Library.Multiset"
begin

section \<open>Python values as decoded from a JSON request body\<close>

text \<open>
  A Python float is a finite value, an infinity or a NaN. Only comparisons are used on
  floats by \<^verbatim>\<open>app_flask.py\<close>, so the finite values are embedded in the reals.
\<close>

datatype pyfloat = Finite real | PosInf | NegInf | NaN

text \<open>The values \<^verbatim>\<open>request.get_json\<close> can produce; a dict is an association list.\<close>

datatype pyval =
    PNone
  | PBool bool
  | PInt int
  | PFloat pyfloat
  | PStr string
  | PList "pyval list"
  | PDict "(string \<times> pyval) list"

text \<open>The exceptions that the modelled code can raise.\<close>

datatype py_exc =
    TypeError
  | KeyError
  | ValueError
  | OverflowError
  | BindingError
  | OperationalError

text \<open>
  Built-ins whose results depend on the floating-point format or on \<^verbatim>\<open>repr\<close> are
  parameters of the model:
  \<^item> \<open>float_round_int\<close>: the double nearest to an int, which is \<^verbatim>\<open>float(i)\<close> when it
    does not overflow;
  \<^item> \<open>float_of_str\<close>: \<^verbatim>\<open>float(s)\<close> for a str, \<open>None\<close> when it raises ValueError;
  \<^item> \<open>str_of_other\<close>: \<^verbatim>\<open>str(v)\<close> for a float, a list or a dict;
  \<^item> \<open>sql_real_text\<close>, \<open>sql_int_real\<close>, \<open>sql_text_num\<close>: the conversions SQLite's
    column affinity applies to a stored value.
\<close>

record builtins =
  float_round_int :: "int \<Rightarrow> real"
  float_of_str :: "string \<Rightarrow> pyfloat option"
  str_of_other :: "pyval \<Rightarrow> string"
  sql_real_text :: "pyfloat \<Rightarrow> string"
  sql_int_real :: "int \<Rightarrow> pyfloat"
  sql_text_num :: "string \<Rightarrow> pyfloat option"

text \<open>Python truthiness (\<^verbatim>\<open>not s\<close>, \<^verbatim>\<open>x or {}\<close>, \<^verbatim>\<open>if errs\<close>).\<close>

fun truthy :: "pyval \<Rightarrow> bool" where
  "truthy PNone = False"
| "truthy (PBool b) = b"
| "truthy (PInt i) = (i \<noteq> 0)"
| "truthy (PFloat f) = (f \<noteq> Finite 0)"
| "truthy (PStr s) = (s \<noteq> [])"
| "truthy (PList xs) = (xs \<noteq> [])"
| "truthy (PDict d) = (d \<noteq> [])"

text \<open>
  \<^verbatim>\<open>float(i)\<close> rounds an int to the nearest double (ties to even) and raises
  OverflowError when the result would not be finite: from \<open>2^1024 - 2^970\<close> on, the
  midpoint between the largest double and \<open>2^1024\<close>.
\<close>

definition float_overflow_bound :: int where
  "float_overflow_bound = 2 ^ 1024 - 2 ^ 970"

text \<open>\<^verbatim>\<open>float(v)\<close>: a bool is an int; None, a list and a dict raise TypeError.\<close>

fun py_float :: "builtins \<Rightarrow> pyval \<Rightarrow> py_exc + pyfloat" where
  "py_float E PNone = Inl TypeError"
| "py_float E (PBool b) = Inr (Finite (if b then 1 else 0))"
| "py_float E (PInt i) =
     (if float_overflow_bound \<le> \<bar>i\<bar> then Inl OverflowError
      else Inr (Finite (float_round_int E i)))"
| "py_float E (PFloat f) = Inr f"
| "py_float E (PStr s) =
     (case float_of_str E s of None \<Rightarrow> Inl ValueError | Some f \<Rightarrow> Inr f)"
| "py_float E (PList xs) = Inl TypeError"
| "py_float E (PDict d) = Inl TypeError"

text \<open>IEEE comparison \<^verbatim>\<open>a <= b\<close>: false whenever a NaN is involved.\<close>

fun float_le :: "pyfloat \<Rightarrow> pyfloat \<Rightarrow> bool" where
  "float_le NaN b = False"
| "float_le a NaN = False"
| "float_le NegInf b = True"
| "float_le a PosInf = True"
| "float_le (Finite a) (Finite b) = (a \<le> b)"
| "float_le PosInf b = False"
| "float_le a NegInf = False"

subsection \<open>Decimal rendering\<close>

definition digit_char :: "nat \<Rightarrow> char" where
  "digit_char n = ''0123456789'' ! (n mod 10)"

fun nat_to_str :: "nat \<Rightarrow> string" where
  "nat_to_str n =
     (if n < 10 then [digit_char n] else nat_to_str (n div 10) @ [digit_char n])"

definition int_to_str :: "int \<Rightarrow> string" where
  "int_to_str i = (if i < 0 then CHR ''-'' # nat_to_str (nat (- i)) else nat_to_str (nat i))"

text \<open>\<^verbatim>\<open>"%0wd"\<close>: zero padding on the left up to width \<open>w\<close>.\<close>

definition zpad :: "nat \<Rightarrow> nat \<Rightarrow> string" where
  "zpad w n = replicate (w - length (nat_to_str n)) CHR ''0'' @ nat_to_str n"

text \<open>\<^verbatim>\<open>str(v)\<close>.\<close>

fun py_str :: "builtins \<Rightarrow> pyval \<Rightarrow> string" where
  "py_str E PNone = ''None''"
| "py_str E (PBool b) = (if b then ''True'' else ''False'')"
| "py_str E (PInt i) = int_to_str i"
| "py_str E (PStr s) = s"
| "py_str E v = str_of_other E v"

subsection \<open>The clock\<close>

text \<open>A naive \<^verbatim>\<open>datetime\<close>, as \<^verbatim>\<open>datetime.utcnow()\<close> returns it.\<close>

record datetime =
  year :: nat
  month :: nat
  day :: nat
  hour :: nat
  minute :: nat
  second :: nat
  microsecond :: nat

definition isoformat_seconds :: "datetime \<Rightarrow> string" where
  "isoformat_seconds d =
     zpad 4 (year d) @ ''-'' @ zpad 2 (month d) @ ''-'' @ zpad 2 (day d) @ ''T'' @
     zpad 2 (hour d) @ '':'' @ zpad 2 (minute d) @ '':'' @ zpad 2 (second d)"

text \<open>\<^verbatim>\<open>isoformat()\<close> prints the microseconds unless they are zero.\<close>

definition isoformat :: "datetime \<Rightarrow> string" where
  "isoformat d =
     (if microsecond d = 0 then isoformat_seconds d
      else isoformat_seconds d @ ''.'' @ zpad 6 (microsecond d))"

section \<open>Helpers of the application\<close>

text \<open>
  \<^verbatim>\<open>DATA_URI_RE = re.compile(r"^data:[^;]+;base64,")\<close> and \<^verbatim>\<open>DATA_URI_RE.sub("", s)\<close>.
  The pattern is anchored at the start, so at most one match is replaced. The greedy
  class \<^verbatim>\<open>[^;]+\<close> cannot cross a semicolon: it takes the characters up to the first
  semicolon after \<^verbatim>\<open>data:\<close>, at least one, and \<^verbatim>\<open>;base64,\<close> must follow.
\<close>

fun strip_prefix :: "string \<Rightarrow> string \<Rightarrow> string option" where
  "strip_prefix [] s = Some s"
| "strip_prefix (p # ps) [] = None"
| "strip_prefix (p # ps) (c # cs) = (if p = c then strip_prefix ps cs else None)"

definition data_uri_sub :: "string \<Rightarrow> string" where
  "data_uri_sub s =
     (case strip_prefix ''data:'' s of
        None \<Rightarrow> s
      | Some r \<Rightarrow>
          if takeWhile (\<lambda>c. c \<noteq> CHR '';'') r = [] then s
          else (case strip_prefix '';base64,'' (dropWhile (\<lambda>c. c \<noteq> CHR '';'') r) of
                  None \<Rightarrow> s
                | Some rest \<Rightarrow> rest))"

text \<open>
  \<^verbatim>\<open>clean_b64\<close>: a falsy value is returned as it is; \<^verbatim>\<open>re.sub\<close> raises TypeError on a
  value that is not a string.
\<close>

fun clean_b64 :: "pyval \<Rightarrow> py_exc + pyval" where
  "clean_b64 s =
     (if \<not> truthy s then Inr s
      else (case s of PStr t \<Rightarrow> Inr (PStr (data_uri_sub t)) | _ \<Rightarrow> Inl TypeError))"

section \<open>The payload normalizer\<close>

text \<open>Sequencing of computations that may raise.\<close>

definition and_then :: "'e + 'a \<Rightarrow> ('a \<Rightarrow> 'e + 'b) \<Rightarrow> 'e + 'b" where
  "and_then m f = (case m of Inl e \<Rightarrow> Inl e | Inr x \<Rightarrow> f x)"

text \<open>
  \<^verbatim>\<open>k in data\<close> and \<^verbatim>\<open>data[k]\<close> for a string key \<open>k\<close>. The handler passes whatever
  \<^verbatim>\<open>get_json\<close> decoded, so \<open>data\<close> need not be a dict: membership in a list compares
  elements, membership in a str is the substring test, a number is not iterable; indexing
  a list or a str by a str raises TypeError. In a dict given as an association list the
  first binding of a key is the dict's.
\<close>

fun py_contains :: "string \<Rightarrow> pyval \<Rightarrow> py_exc + bool" where
  "py_contains k (PDict d) = Inr (map_of d k \<noteq> None)"
| "py_contains k (PList xs) = Inr (PStr k \<in> set xs)"
| "py_contains k (PStr s) = Inr (sublist k s)"
| "py_contains k v = Inl TypeError"

fun py_getitem :: "pyval \<Rightarrow> string \<Rightarrow> py_exc + pyval" where
  "py_getitem (PDict d) k = (case map_of d k of None \<Rightarrow> Inl KeyError | Some v \<Rightarrow> Inr v)"
| "py_getitem v k = Inl TypeError"

text \<open>
  The local function \<^verbatim>\<open>pick(*keys, default=None)\<close>: the first key that is in \<open>data\<close> with
  a value other than None wins.
\<close>

fun pick :: "pyval \<Rightarrow> string list \<Rightarrow> pyval \<Rightarrow> py_exc + pyval" where
  "pick data [] dflt = Inr dflt"
| "pick data (k # ks) dflt =
     and_then (py_contains k data) (\<lambda>present.
       if present then
         and_then (py_getitem data k) (\<lambda>v.
           if v \<noteq> PNone then Inr v else pick data ks dflt)
       else pick data ks dflt)"

text \<open>The error messages; strings are byte sequences, the accented letter is UTF-8.\<close>

definition a_acute :: string where
  "a_acute = [CHR 0xC3, CHR 0xA1]"

definition msg_lat_invalida :: string where
  "msg_lat_invalida = ''lat/latitude inv'' @ a_acute @ ''lida''"

definition msg_lon_invalida :: string where
  "msg_lon_invalida = ''lon/longitude inv'' @ a_acute @ ''lida''"

definition msg_lat_rango :: string where
  "msg_lat_rango = ''lat fuera de rango (-90..90)''"

definition msg_lon_rango :: string where
  "msg_lon_rango = ''lon fuera de rango (-180..180)''"

text \<open>
  \<^verbatim>\<open>try: x = float(x) / except (TypeError, ValueError): errs.append(msg)\<close>: returns the
  new value of the variable and the messages appended; any other exception propagates.
\<close>

definition coerce_coord :: "builtins \<Rightarrow> string \<Rightarrow> pyval \<Rightarrow> py_exc + (pyval \<times> string list)" where
  "coerce_coord E msg v =
     (case py_float E v of
        Inr f \<Rightarrow> Inr (PFloat f, [])
      | Inl TypeError \<Rightarrow> Inr (v, [msg])
      | Inl ValueError \<Rightarrow> Inr (v, [msg])
      | Inl e \<Rightarrow> Inl e)"

text \<open>
  The chained comparison \<^verbatim>\<open>lo <= v <= hi\<close> with float bounds. It is only evaluated when
  both coercions succeeded; on a value that cannot be compared with a float Python
  raises TypeError.
\<close>

fun py_between :: "real \<Rightarrow> pyval \<Rightarrow> real \<Rightarrow> py_exc + bool" where
  "py_between lo (PFloat f) hi = Inr (float_le (Finite lo) f \<and> float_le f (Finite hi))"
| "py_between lo (PInt i) hi = Inr (lo \<le> of_int i \<and> of_int i \<le> hi)"
| "py_between lo (PBool b) hi = Inr (lo \<le> (if b then 1 else 0) \<and> (if b then 1 else 0) \<le> hi)"
| "py_between lo v hi = Inl TypeError"

definition range_errors :: "pyval \<Rightarrow> pyval \<Rightarrow> py_exc + string list" where
  "range_errors la lo =
     and_then (py_between (- 90) la 90) (\<lambda>lat_ok.
     and_then (py_between (- 180) lo 180) (\<lambda>lon_ok.
       Inr ((if \<not> lat_ok then [msg_lat_rango] else []) @
            (if \<not> lon_ok then [msg_lon_rango] else []))))"

text \<open>The optional accuracy: a value that does not convert is replaced by None.\<close>

definition coerce_accuracy :: "builtins \<Rightarrow> pyval \<Rightarrow> py_exc + pyval" where
  "coerce_accuracy E a =
     (if a \<noteq> PNone then
        (case py_float E a of
           Inr f \<Rightarrow> Inr (PFloat f)
         | Inl TypeError \<Rightarrow> Inr PNone
         | Inl ValueError \<Rightarrow> Inr PNone
         | Inl e \<Rightarrow> Inl e)
      else Inr a)"

record payload =
  lat :: pyval
  lon :: pyval
  fecha :: string
  foto_base64 :: pyval
  mime :: pyval
  filename :: pyval
  accuracy :: pyval
  created_at :: string

text \<open>
  \<^verbatim>\<open>parse_report_payload(data)\<close>. The clock is read twice: \<open>now1\<close> for the default of
  \<open>fecha\<close> (evaluated before the keys are looked up), \<open>now2\<close> for \<open>created_at\<close>.
\<close>

definition parse_report_payload ::
  "builtins \<Rightarrow> datetime \<Rightarrow> datetime \<Rightarrow> pyval \<Rightarrow> py_exc + (payload \<times> string list)" where
  "parse_report_payload E now1 now2 data =
     and_then (pick data [''lat'', ''latitude''] PNone) (\<lambda>lat0.
     and_then (pick data [''lon'', ''longitude''] PNone) (\<lambda>lon0.
     and_then (pick data [''fecha'', ''timestamp''] (PStr (isoformat now1))) (\<lambda>fecha0.
     and_then (pick data [''foto_base64'', ''photo_base64''] PNone) (\<lambda>foto0.
     and_then (pick data [''mime'', ''photo_mime_type''] PNone) (\<lambda>mime0.
     and_then (pick data [''filename'', ''photo_filename''] PNone) (\<lambda>filename0.
     and_then (pick data [''accuracy'', ''accuracy_m''] PNone) (\<lambda>accuracy0.
     and_then (coerce_coord E msg_lat_invalida lat0) (\<lambda>(lat1, errs1).
     and_then (coerce_coord E msg_lon_invalida lon0) (\<lambda>(lon1, errs2).
     and_then (if errs1 @ errs2 = [] then range_errors lat1 lon1 else Inr []) (\<lambda>errs3.
     and_then (coerce_accuracy E accuracy0) (\<lambda>accuracy1.
     and_then (clean_b64 foto0) (\<lambda>foto1.
       Inr (\<lparr>lat = lat1, lon = lon1, fecha = py_str E fecha0, foto_base64 = foto1,
             mime = mime0, filename = filename0, accuracy = accuracy1,
             created_at = isoformat_seconds now2\<rparr>,
            errs1 @ errs2 @ errs3)))))))))))))"

section \<open>The report store\<close>

text \<open>
  The storage engine is SQLite, used through Python's \<^verbatim>\<open>sqlite3\<close>. A stored value is
  NULL, an INTEGER, a REAL or a TEXT (the program never binds bytes, so no BLOB).
\<close>

datatype sqlval = SqlNull | SqlInt int | SqlReal pyfloat | SqlText string

datatype coltype = INTEGER | REAL | TEXT

text \<open>
  A row is its rowid (the \<^verbatim>\<open>id INTEGER PRIMARY KEY\<close> column) and the values of its other
  columns by name. A column with no value in a row reads as NULL: that is how a column
  added by \<^verbatim>\<open>ALTER TABLE ... ADD COLUMN\<close> reads in the rows that existed before.
\<close>

record sqlrow =
  rowid :: int
  cells :: "(string \<times> sqlval) list"


text \<open>
  The table \<^verbatim>\<open>reportes\<close>: its columns in order, its rows, and \<open>seq\<close>, the entry that
  \<^verbatim>\<open>AUTOINCREMENT\<close> keeps in \<^verbatim>\<open>sqlite_sequence\<close> (the largest rowid ever used, 0 before
  the first insert); a table of an older version is taken to have the same id column.
  The database is the table, or \<open>None\<close> when it does not exist. The
  engine's resource limits (a full disk, the rowids running out at \<open>2^63 - 1\<close>) are not
  modelled.
\<close>

record table =
  columns :: "(string \<times> coltype) list"
  rows :: "sqlrow list"
  seq :: int

type_synonym db = "table option"

definition column_names :: "table \<Rightarrow> string list" where
  "column_names t = map fst (columns t)"

text \<open>The column list of the \<^verbatim>\<open>CREATE TABLE\<close> statement of \<^verbatim>\<open>init_db\<close>.\<close>

definition current_columns :: "(string \<times> coltype) list" where
  "current_columns =
     [(''id'', INTEGER), (''lat'', REAL), (''lon'', REAL), (''fecha'', TEXT),
      (''foto_base64'', TEXT), (''mime'', TEXT), (''filename'', TEXT),
      (''accuracy'', REAL), (''created_at'', TEXT)]"

definition create_table_if_not_exists :: "db \<Rightarrow> db" where
  "create_table_if_not_exists d =
     (case d of
        None \<Rightarrow> Some \<lparr>columns = current_columns, rows = [], seq = 0\<rparr>
      | Some t \<Rightarrow> Some t)"

text \<open>
  \<^verbatim>\<open>ALTER TABLE reportes ADD COLUMN c ty\<close>: the column is appended, the rows are not
  touched; a column that exists already is an error.
\<close>

definition add_column :: "string \<Rightarrow> coltype \<Rightarrow> table \<Rightarrow> py_exc + table" where
  "add_column c ty t =
     (if c \<in> set (column_names t) then Inl OperationalError
      else Inr (t\<lparr>columns := columns t @ [(c, ty)]\<rparr>))"

fun execute_alters :: "(string \<times> coltype) list \<Rightarrow> table \<Rightarrow> py_exc + table" where
  "execute_alters [] t = Inr t"
| "execute_alters ((c, ty) # alters) t = and_then (add_column c ty t) (execute_alters alters)"

text \<open>
  \<^verbatim>\<open>init_db\<close>: create the table if it does not exist, read the column names with
  \<^verbatim>\<open>PRAGMA table_info\<close>, collect one \<^verbatim>\<open>ALTER TABLE\<close> for each of the four later columns
  that is missing, and run them.
\<close>

definition init_db :: "db \<Rightarrow> py_exc + db" where
  "init_db d =
     (case create_table_if_not_exists d of
        None \<Rightarrow> Inl OperationalError
      | Some t \<Rightarrow>
          (let cols = set (column_names t);
               alters =
                 (if ''mime'' \<notin> cols then [(''mime'', TEXT)] else []) @
                 (if ''filename'' \<notin> cols then [(''filename'', TEXT)] else []) @
                 (if ''accuracy'' \<notin> cols then [(''accuracy'', REAL)] else []) @
                 (if ''created_at'' \<notin> cols then [(''created_at'', TEXT)] else [])
           in and_then (execute_alters alters t) (\<lambda>t'. Inr (Some t'))))"

subsection \<open>Binding parameters and column affinity\<close>

text \<open>
  How \<^verbatim>\<open>sqlite3\<close> binds a Python value: None is NULL, a bool or an int is an INTEGER
  (OverflowError outside 64 bits), a float is a REAL (a NaN is stored as NULL), a str is
  a TEXT; a list or a dict is not supported and raises.
\<close>

fun sql_bind :: "pyval \<Rightarrow> py_exc + sqlval" where
  "sql_bind PNone = Inr SqlNull"
| "sql_bind (PBool b) = Inr (SqlInt (if b then 1 else 0))"
| "sql_bind (PInt i) =
     (if - (2 ^ 63) \<le> i \<and> i < 2 ^ 63 then Inr (SqlInt i) else Inl OverflowError)"
| "sql_bind (PFloat f) = Inr (if f = NaN then SqlNull else SqlReal f)"
| "sql_bind (PStr s) = Inr (SqlText s)"
| "sql_bind (PList xs) = Inl BindingError"
| "sql_bind (PDict d) = Inl BindingError"

text \<open>
  Column affinity: a TEXT column stores a number as its text; a REAL column stores an
  integer as a float and a text that reads as a number as that number.
\<close>

fun apply_affinity :: "builtins \<Rightarrow> coltype \<Rightarrow> sqlval \<Rightarrow> sqlval" where
  "apply_affinity E TEXT (SqlInt i) = SqlText (int_to_str i)"
| "apply_affinity E TEXT (SqlReal f) = SqlText (sql_real_text E f)"
| "apply_affinity E REAL (SqlInt i) = SqlReal (sql_int_real E i)"
| "apply_affinity E REAL (SqlText s) =
     (case sql_text_num E s of None \<Rightarrow> SqlText s | Some f \<Rightarrow> SqlReal f)"
| "apply_affinity E ty v = v"


text \<open>
  \<^verbatim>\<open>INSERT INTO reportes(c1, ..., cn) VALUES(?, ..., ?)\<close>. Preparing the statement fails
  when the table or one of the named columns does not exist; then the parameters are
  bound in order. With \<^verbatim>\<open>AUTOINCREMENT\<close> the new rowid is one more than the largest rowid
  that the table has ever held: the larger of \<open>seq\<close> and the rowids present. The result
  is the new database and \<^verbatim>\<open>lastrowid\<close>.
\<close>

fun bind_all :: "pyval list \<Rightarrow> py_exc + sqlval list" where
  "bind_all [] = Inr []"
| "bind_all (v # vs) =
     and_then (sql_bind v) (\<lambda>x. and_then (bind_all vs) (\<lambda>xs. Inr (x # xs)))"

definition next_rowid :: "table \<Rightarrow> int" where
  "next_rowid t = Max (set (seq t # map rowid (rows t))) + 1"

definition sql_insert ::
  "builtins \<Rightarrow> string list \<Rightarrow> pyval list \<Rightarrow> db \<Rightarrow> py_exc + (db \<times> int)" where
  "sql_insert E names params d =
     (case d of
        None \<Rightarrow> Inl OperationalError
      | Some t \<Rightarrow>
          if \<not> set names \<subseteq> set (column_names t) then Inl OperationalError
          else
            and_then (bind_all params) (\<lambda>vals.
              let stored =
                    map (\<lambda>(c, v). (c, apply_affinity E (the (map_of (columns t) c)) v))
                      (zip names vals);
                  rid = next_rowid t
              in Inr (Some (t\<lparr>rows := rows t @ [\<lparr>rowid = rid, cells = stored\<rparr>],
                                seq := rid\<rparr>), rid)))"


section \<open>The routes\<close>

text \<open>
  A request as \<^verbatim>\<open>crear_reporte\<close> reads it: \<^verbatim>\<open>request.is_json\<close> and the value of
  \<^verbatim>\<open>request.get_json(silent=True)\<close>, which is None when the body does not parse.
\<close>

record request =
  is_json :: bool
  get_json :: pyval

text \<open>One element of the list that \<^verbatim>\<open>listar_reportes\<close> returns.\<close>

record report =
  rep_id :: int
  rep_lat :: pyval
  rep_lon :: pyval
  rep_fecha :: pyval
  rep_foto_base64 :: pyval
  rep_mime :: pyval
  rep_filename :: pyval
  rep_accuracy :: pyval
  rep_created_at :: pyval

text \<open>The JSON bodies of the responses; a response is a body and a status code.\<close>

datatype body =
    ErrorBody string
  | InvalidBody string "string list"
  | CreatedBody int
  | ListBody "report list"
  | DeletedBody string
  | ServerErrorBody py_exc

type_synonym response = "body \<times> nat"

definition msg_content_type :: string where
  "msg_content_type = ''Content-Type debe ser application/json''"

definition msg_payload_invalido :: string where
  "msg_payload_invalido = ''payload inv'' @ a_acute @ ''lido''"

definition insert_columns :: "string list" where
  "insert_columns =
     [''lat'', ''lon'', ''fecha'', ''foto_base64'', ''mime'', ''filename'', ''accuracy'',
      ''created_at'']"

text \<open>
  \<^verbatim>\<open>crear_reporte\<close> (POST /reportes). An exception leaves the handler before the commit:
  the result is then \<open>Inl\<close> and the database is the one before the request.
\<close>

definition crear_reporte ::
  "builtins \<Rightarrow> datetime \<Rightarrow> datetime \<Rightarrow> request \<Rightarrow> db \<Rightarrow> py_exc + (response \<times> db)" where
  "crear_reporte E now1 now2 req d =
     (if \<not> is_json req then Inr ((ErrorBody msg_content_type, 415), d)
      else
        (let data = (if truthy (get_json req) then get_json req else PDict [])
         in and_then (parse_report_payload E now1 now2 data) (\<lambda>(p, errs).
              if errs \<noteq> [] then Inr ((InvalidBody msg_payload_invalido errs, 400), d)
              else
                and_then
                  (sql_insert E insert_columns
                     [lat p, lon p, PStr (fecha p), foto_base64 p, mime p, filename p,
                      accuracy p, PStr (created_at p)] d)
                  (\<lambda>(d', rid). Inr ((CreatedBody rid, 201), d')))))"

definition select_columns :: "string list" where
  "select_columns =
     [''id'', ''lat'', ''lon'', ''fecha'', ''foto_base64'', ''mime'', ''filename'',
      ''accuracy'', ''created_at'']"





subsection \<open>Sequences of requests\<close>





section \<open>Notions of the specification\<close>

text \<open>
  Field resolution as the specification words it: the legacy key is tried first, then
  the current-schema key; a key bound to null counts as absent.
\<close>

definition lookup_present :: "(string \<times> pyval) list \<Rightarrow> string \<Rightarrow> pyval option" where
  "lookup_present m k =
     (case map_of m k of None \<Rightarrow> None | Some v \<Rightarrow> if v = PNone then None else Some v)"

definition field_value :: "(string \<times> pyval) list \<Rightarrow> string \<Rightarrow> string \<Rightarrow> pyval \<Rightarrow> pyval" where
  "field_value m legacy current dflt =
     (case lookup_present m legacy of
        Some v \<Rightarrow> v
      | None \<Rightarrow> (case lookup_present m current of Some v \<Rightarrow> v | None \<Rightarrow> dflt))"

text \<open>The seven logical fields under the legacy names and under the current names.\<close>

definition legacy_payload ::
  "pyval \<Rightarrow> pyval \<Rightarrow> pyval \<Rightarrow> pyval \<Rightarrow> pyval \<Rightarrow> pyval \<Rightarrow> pyval \<Rightarrow> (string \<times> pyval) list" where
  "legacy_payload la lo fe fo mi fi ac =
     [(''lat'', la), (''lon'', lo), (''fecha'', fe), (''foto_base64'', fo), (''mime'', mi),
      (''filename'', fi), (''accuracy'', ac)]"

definition current_payload ::
  "pyval \<Rightarrow> pyval \<Rightarrow> pyval \<Rightarrow> pyval \<Rightarrow> pyval \<Rightarrow> pyval \<Rightarrow> pyval \<Rightarrow> (string \<times> pyval) list" where
  "current_payload la lo fe fo mi fi ac =
     [(''timestamp'', fe), (''latitude'', la), (''longitude'', lo), (''accuracy_m'', ac),
      (''photo_base64'', fo), (''photo_mime_type'', mi), (''photo_filename'', fi)]"



text \<open>The ranges of the coordinates.\<close>

definition lat_in_range :: "pyfloat \<Rightarrow> bool" where
  "lat_in_range f = (float_le (Finite (- 90)) f \<and> float_le f (Finite 90))"

definition lon_in_range :: "pyfloat \<Rightarrow> bool" where
  "lon_in_range f = (float_le (Finite (- 180)) f \<and> float_le f (Finite 180))"



text \<open>A photo value that is a string, or is absent, null or another falsy value.\<close>

fun photo_ok :: "pyval \<Rightarrow> bool" where
  "photo_ok (PStr s) = True"
| "photo_ok v = (\<not> truthy v)"

text \<open>The table exists with the columns that the routes name.\<close>

definition table_ready :: "db \<Rightarrow> bool" where
  "table_ready d =
     (case d of None \<Rightarrow> False | Some t \<Rightarrow> set select_columns \<subseteq> set (column_names t))"



text \<open>The four columns that \<^verbatim>\<open>init_db\<close> adds to an older table.\<close>

definition later_columns :: "(string \<times> coltype) list" where
  "later_columns =
     [(''mime'', TEXT), (''filename'', TEXT), (''accuracy'', REAL), (''created_at'', TEXT)]"


text \<open>
  For the examples: the database right after \<^verbatim>\<open>init_db\<close> created the table, a clock
  reading, and an instance of the parameters that reads no string as a number (the
  strings of the examples are not numerals).
\<close>

definition fresh_db :: db where
  "fresh_db = Some \<lparr>columns = current_columns, rows = [], seq = 0\<rparr>"

definition sample_builtins :: builtins where
  "sample_builtins =
     \<lparr>float_round_int = real_of_int, float_of_str = (\<lambda>s. None), str_of_other = (\<lambda>v. []),
      sql_real_text = (\<lambda>f. []), sql_int_real = (\<lambda>i. Finite (real_of_int i)),
      sql_text_num = (\<lambda>s. None)\<rparr>"


definition sample_now :: datetime where
  "sample_now = \<lparr>year = 2025, month = 8, day = 20, hour = 20, minute = 0, second = 7,
     microsecond = 1500\<rparr>"




section \<open>Basic facts\<close>

lemma and_then_Inr [simp]: "and_then (Inr x) f = f x"
  by (simp add: and_then_def)

lemma and_then_Inl [simp]: "and_then (Inl e) f = Inl e"
  by (simp add: and_then_def)


lemma pick_dict: "pick (PDict m) [legacy, current] dflt = Inr (field_value m legacy current dflt)"
  by (simp add: field_value_def lookup_present_def split: option.splits)

lemma parse_dict:
  "parse_report_payload E now1 now2 (PDict m) =
     and_then (coerce_coord E msg_lat_invalida (field_value m ''lat'' ''latitude'' PNone)) (\<lambda>(lat1, errs1).
     and_then (coerce_coord E msg_lon_invalida (field_value m ''lon'' ''longitude'' PNone)) (\<lambda>(lon1, errs2).
     and_then (if errs1 @ errs2 = [] then range_errors lat1 lon1 else Inr []) (\<lambda>errs3.
     and_then (coerce_accuracy E (field_value m ''accuracy'' ''accuracy_m'' PNone)) (\<lambda>accuracy1.
     and_then (clean_b64 (field_value m ''foto_base64'' ''photo_base64'' PNone)) (\<lambda>foto1.
       Inr (\<lparr>lat = lat1, lon = lon1,
             fecha = py_str E (field_value m ''fecha'' ''timestamp'' (PStr (isoformat now1))),
             foto_base64 = foto1,
             mime = field_value m ''mime'' ''photo_mime_type'' PNone,
             filename = field_value m ''filename'' ''photo_filename'' PNone,
             accuracy = accuracy1,
             created_at = isoformat_seconds now2\<rparr>,
            errs1 @ errs2 @ errs3))))))"
  unfolding parse_report_payload_def pick_dict by simp

lemma field_value_legacy:
  "field_value (legacy_payload la lo fe fo mi fi ac) ''lat'' ''latitude'' d = (if la = PNone then d else la)"
  "field_value (legacy_payload la lo fe fo mi fi ac) ''lon'' ''longitude'' d = (if lo = PNone then d else lo)"
  "field_value (legacy_payload la lo fe fo mi fi ac) ''fecha'' ''timestamp'' d = (if fe = PNone then d else fe)"
  "field_value (legacy_payload la lo fe fo mi fi ac) ''foto_base64'' ''photo_base64'' d = (if fo = PNone then d else fo)"
  "field_value (legacy_payload la lo fe fo mi fi ac) ''mime'' ''photo_mime_type'' d = (if mi = PNone then d else mi)"
  "field_value (legacy_payload la lo fe fo mi fi ac) ''filename'' ''photo_filename'' d = (if fi = PNone then d else fi)"
  "field_value (legacy_payload la lo fe fo mi fi ac) ''accuracy'' ''accuracy_m'' d = (if ac = PNone then d else ac)"
  by (simp_all add: field_value_def lookup_present_def legacy_payload_def)

lemma field_value_current:
  "field_value (current_payload la lo fe fo mi fi ac) ''lat'' ''latitude'' d = (if la = PNone then d else la)"
  "field_value (current_payload la lo fe fo mi fi ac) ''lon'' ''longitude'' d = (if lo = PNone then d else lo)"
  "field_value (current_payload la lo fe fo mi fi ac) ''fecha'' ''timestamp'' d = (if fe = PNone then d else fe)"
  "field_value (current_payload la lo fe fo mi fi ac) ''foto_base64'' ''photo_base64'' d = (if fo = PNone then d else fo)"
  "field_value (current_payload la lo fe fo mi fi ac) ''mime'' ''photo_mime_type'' d = (if mi = PNone then d else mi)"
  "field_value (current_payload la lo fe fo mi fi ac) ''filename'' ''photo_filename'' d = (if fi = PNone then d else fi)"
  "field_value (current_payload la lo fe fo mi fi ac) ''accuracy'' ''accuracy_m'' d = (if ac = PNone then d else ac)"
  by (simp_all add: field_value_def lookup_present_def current_payload_def)

lemma fv_simps:
  "field_value [] l c d = d"
  "field_value ((k, v) # m) l c d =
     (if k = l \<and> v \<noteq> PNone then v
      else if k = l then (case lookup_present ((k, v) # m) c of Some w \<Rightarrow> w | None \<Rightarrow> d)
      else (case lookup_present m l of Some w \<Rightarrow> w
            | None \<Rightarrow> (case lookup_present ((k, v) # m) c of Some w \<Rightarrow> w | None \<Rightarrow> d)))"
  by (auto simp: field_value_def lookup_present_def split: option.splits)

lemma lp_simps:
  "lookup_present [] k = None"
  "lookup_present ((k', v) # m) k = (if k' = k then (if v = PNone then None else Some v) else lookup_present m k)"
  by (auto simp: lookup_present_def)








lemma clean_b64_falsy: "\<not> truthy v \<Longrightarrow> clean_b64 v = Inr v"
  by simp



lemma coerce_accuracy_returns:
  "py_float E v \<noteq> Inl OverflowError \<Longrightarrow> \<exists>w. coerce_accuracy E v = Inr w"
  by (cases v) (auto simp: coerce_accuracy_def split: sum.splits py_exc.splits option.splits)

lemma clean_b64_returns: "photo_ok v \<Longrightarrow> \<exists>w. clean_b64 v = Inr w"
  by (cases v) (auto split: if_splits)



lemma parse_current_example:
  "parse_report_payload E now1 now2
     (PDict (current_payload (PFloat (Finite 10.1)) (PFloat (Finite (- 74.8)))
        (PStr ''2025-08-20T20:00:00Z'') (PStr ''QUJD'') (PStr ''image/jpeg'')
        (PStr ''x.jpg'') (PFloat (Finite 12.3)))) =
   Inr (\<lparr>lat = PFloat (Finite 10.1), lon = PFloat (Finite (- 74.8)),
         fecha = ''2025-08-20T20:00:00Z'', foto_base64 = PStr ''QUJD'',
         mime = PStr ''image/jpeg'', filename = PStr ''x.jpg'',
         accuracy = PFloat (Finite 12.3), created_at = isoformat_seconds now2\<rparr>, [])"
  by (simp add: parse_dict field_value_current coerce_coord_def range_errors_def
      coerce_accuracy_def data_uri_sub_def)


lemma crear_reporte_dict:
  assumes "is_json req" and "get_json req = PDict m"
  shows "crear_reporte E now1 now2 req d =
     and_then (parse_report_payload E now1 now2 (PDict m)) (\<lambda>(p, errs).
       if errs \<noteq> [] then Inr ((InvalidBody msg_payload_invalido errs, 400), d)
       else
         and_then
           (sql_insert E insert_columns
              [lat p, lon p, PStr (fecha p), foto_base64 p, mime p, filename p,
               accuracy p, PStr (created_at p)] d)
           (\<lambda>(d', rid). Inr ((CreatedBody rid, 201), d')))"
proof -
  have "(if truthy (PDict m) then PDict m else PDict []) = PDict m"
    by simp
  then show ?thesis
    using assms by (simp add: crear_reporte_def Let_def)
qed

lemma coerce_coord_parsed:
  "py_float E v = Inr f \<Longrightarrow> coerce_coord E msg v = Inr (PFloat f, [])"
  by (simp add: coerce_coord_def)

lemma range_errors_floats:
  "range_errors (PFloat la) (PFloat lo) =
     Inr ((if \<not> lat_in_range la then [msg_lat_rango] else []) @
          (if \<not> lon_in_range lo then [msg_lon_rango] else []))"
  by (simp add: range_errors_def lat_in_range_def lon_in_range_def)

lemma parse_coords_parsed:
  assumes la: "py_float E (field_value m ''lat'' ''latitude'' PNone) = Inr la"
    and lo: "py_float E (field_value m ''lon'' ''longitude'' PNone) = Inr lo"
    and ac: "coerce_accuracy E (field_value m ''accuracy'' ''accuracy_m'' PNone) = Inr acc"
    and ph: "clean_b64 (field_value m ''foto_base64'' ''photo_base64'' PNone) = Inr foto"
  shows "parse_report_payload E now1 now2 (PDict m) =
     Inr (\<lparr>lat = PFloat la, lon = PFloat lo,
           fecha = py_str E (field_value m ''fecha'' ''timestamp'' (PStr (isoformat now1))),
           foto_base64 = foto,
           mime = field_value m ''mime'' ''photo_mime_type'' PNone,
           filename = field_value m ''filename'' ''photo_filename'' PNone,
           accuracy = acc,
           created_at = isoformat_seconds now2\<rparr>,
          (if \<not> lat_in_range la then [msg_lat_rango] else []) @
          (if \<not> lon_in_range lo then [msg_lon_rango] else []))"
  unfolding parse_dict coerce_coord_parsed [OF la] coerce_coord_parsed [OF lo] ac ph
  by (simp add: range_errors_floats del: clean_b64.simps)


lemma sql_bind_null_iff: "sql_bind v = Inr SqlNull \<longleftrightarrow> v = PNone \<or> v = PFloat NaN"
  by (cases v) (auto split: if_splits)


lemma apply_affinity_null [simp]: "apply_affinity E ty SqlNull = SqlNull"
  by (cases ty) simp_all

lemma apply_affinity_null_iff: "apply_affinity E ty v = SqlNull \<longleftrightarrow> v = SqlNull"
  by (cases "(E, ty, v)" rule: apply_affinity.cases) (auto split: option.splits)












lemma table_ready_fresh: "table_ready fresh_db"
  by (simp add: table_ready_def fresh_db_def select_columns_def column_names_def
      current_columns_def)









lemma init_db_None: "init_db None = Inr fresh_db"
  by (simp add: init_db_def create_table_if_not_exists_def column_names_def
      current_columns_def fresh_db_def Let_def)

lemma init_db_Some:
  "init_db (Some t) =
     Inr (Some (t\<lparr>columns := columns t @
        filter (\<lambda>(c, ty). c \<notin> set (column_names t)) later_columns\<rparr>))"
  by (simp add: init_db_def create_table_if_not_exists_def later_columns_def Let_def
      add_column_def column_names_def)


lemma later_columns_after_init:
  "set (map fst later_columns) \<subseteq>
     set (column_names (t\<lparr>columns := columns t @
        filter (\<lambda>(c, ty). c \<notin> set (column_names t)) later_columns\<rparr>))"
  by (force simp: column_names_def)



lemma init_db_ready_fresh: "init_db None = Inr d \<Longrightarrow> table_ready d"
  using table_ready_fresh by (simp add: init_db_None)

lemma init_db_ready_older:
  assumes "{''id'', ''lat'', ''lon'', ''fecha'', ''foto_base64''} \<subseteq> set (column_names t)"
    and "init_db (Some t) = Inr d"
  shows "table_ready d"
proof -
  let ?t' = "t\<lparr>columns := columns t @
        filter (\<lambda>(c, ty). c \<notin> set (column_names t)) later_columns\<rparr>"
  have d: "d = Some ?t'" using assms(2) by (simp add: init_db_Some)
  have "set (map fst later_columns) \<subseteq> set (column_names ?t')"
    by (rule later_columns_after_init)
  moreover have "set (column_names t) \<subseteq> set (column_names ?t')"
    by (auto simp: column_names_def)
  ultimately show ?thesis
    using assms(1) unfolding d
    by (auto simp: table_ready_def select_columns_def later_columns_def)
qed

section \<open>The claims\<close>




text \<open>
  C2 (amended). When the request is JSON with an object body in which both coordinates
  parse as floating-point and at least one lies outside its range, POST /reportes
  answers 400 with one range message for each coordinate out of range and nothing else,
  and the database is the one before the request; this for a photo that is a string or
  falsy and an accuracy whose conversion does not overflow.
\<close>

theorem out_of_range_rejected:
  assumes "is_json req" and "get_json req = PDict m"
    and "py_float E (field_value m ''lat'' ''latitude'' PNone) = Inr la"
    and "py_float E (field_value m ''lon'' ''longitude'' PNone) = Inr lo"
    and "\<not> lat_in_range la \<or> \<not> lon_in_range lo"
    and "py_float E (field_value m ''accuracy'' ''accuracy_m'' PNone) \<noteq> Inl OverflowError"
    and "photo_ok (field_value m ''foto_base64'' ''photo_base64'' PNone)"
  shows "crear_reporte E now1 now2 req d =
     Inr ((InvalidBody msg_payload_invalido
            ((if \<not> lat_in_range la then [msg_lat_rango] else []) @
             (if \<not> lon_in_range lo then [msg_lon_rango] else [])), 400), d)"
proof -
  obtain acc where ac: "coerce_accuracy E (field_value m ''accuracy'' ''accuracy_m'' PNone) = Inr acc"
    using coerce_accuracy_returns assms(6) by blast
  obtain foto where ph: "clean_b64 (field_value m ''foto_base64'' ''photo_base64'' PNone) = Inr foto"
    using clean_b64_returns assms(7) by blast
  show ?thesis
    unfolding crear_reporte_dict [OF assms(1,2)] parse_coords_parsed [OF assms(3,4) ac ph]
    using assms(5) by auto
qed

theorem out_of_range_rejected_witness:
  "\<forall>E now1 now2 d.
     py_float E (PFloat (Finite 100)) = Inr (Finite 100) \<and>
     py_float E (PFloat (Finite (- 200))) = Inr (Finite (- 200)) \<and>
     \<not> lat_in_range (Finite 100) \<and> \<not> lon_in_range (Finite (- 200)) \<and>
     crear_reporte E now1 now2
       \<lparr>is_json = True,
        get_json = PDict [(''lat'', PFloat (Finite 100)), (''lon'', PFloat (Finite (- 200)))]\<rparr> d =
     Inr ((InvalidBody msg_payload_invalido [msg_lat_rango, msg_lon_rango], 400), d)"
proof (intro allI)
  fix E now1 now2 d
  let ?m = "[(''lat'', PFloat (Finite 100)), (''lon'', PFloat (Finite (- 200)))]"
  let ?req = "\<lparr>is_json = True, get_json = PDict ?m\<rparr>"
  have r: "\<not> lat_in_range (Finite 100)" "\<not> lon_in_range (Finite (- 200))"
    by (simp_all add: lat_in_range_def lon_in_range_def)
  have "crear_reporte E now1 now2 ?req d =
     Inr ((InvalidBody msg_payload_invalido
            ((if \<not> lat_in_range (Finite 100) then [msg_lat_rango] else []) @
             (if \<not> lon_in_range (Finite (- 200)) then [msg_lon_rango] else [])), 400), d)"
    by (rule out_of_range_rejected [where m = ?m])
      (simp_all add: fv_simps lp_simps r)
  then show "py_float E (PFloat (Finite 100)) = Inr (Finite 100) \<and>
     py_float E (PFloat (Finite (- 200))) = Inr (Finite (- 200)) \<and>
     \<not> lat_in_range (Finite 100) \<and> \<not> lon_in_range (Finite (- 200)) \<and>
     crear_reporte E now1 now2 ?req d =
     Inr ((InvalidBody msg_payload_invalido [msg_lat_rango, msg_lon_rango], 400), d)"
    using r by simp
qed

text \<open>
  The claim C2 as first stated fails: a latitude of 100 parses and is out of range, but
  with no longitude in the payload the range checks are skipped and the 400 response
  lists the coercion message of the longitude only.
\<close>

theorem out_of_range_lat_unreported_counterexample:
  "py_float sample_builtins (PFloat (Finite 100)) = Inr (Finite 100) \<and>
   \<not> lat_in_range (Finite 100) \<and>
   crear_reporte sample_builtins sample_now sample_now
     \<lparr>is_json = True, get_json = PDict [(''lat'', PFloat (Finite 100))]\<rparr> fresh_db =
   Inr ((InvalidBody msg_payload_invalido [msg_lon_invalida], 400), fresh_db)"
  by (simp add: lat_in_range_def crear_reporte_def parse_dict fv_simps lp_simps
      coerce_coord_def coerce_accuracy_def)





text \<open>
  C5. For every input mapping and every pair of a legacy key and a current-schema key,
  the value picked is the one of the legacy key when that key is bound to a value other
  than null, else the one of the current-schema key when that is bound to a value other
  than null, else the default. The normalized result depends on the mapping only through
  these seven winning values, and a legacy-schema payload and a current-schema payload
  that carry the same values normalize to the same result.
\<close>

theorem field_resolution_legacy_first:
  "pick (PDict m) [legacy, current] dflt = Inr (field_value m legacy current dflt) \<and>
   parse_report_payload E now1 now2 (PDict m) =
     parse_report_payload E now1 now2 (PDict (legacy_payload
       (field_value m ''lat'' ''latitude'' PNone)
       (field_value m ''lon'' ''longitude'' PNone)
       (field_value m ''fecha'' ''timestamp'' PNone)
       (field_value m ''foto_base64'' ''photo_base64'' PNone)
       (field_value m ''mime'' ''photo_mime_type'' PNone)
       (field_value m ''filename'' ''photo_filename'' PNone)
       (field_value m ''accuracy'' ''accuracy_m'' PNone))) \<and>
   parse_report_payload E now1 now2 (PDict (legacy_payload la lo fe fo mi fi ac)) =
     parse_report_payload E now1 now2 (PDict (current_payload la lo fe fo mi fi ac))"
proof (intro conjI)
  show "pick (PDict m) [legacy, current] dflt = Inr (field_value m legacy current dflt)"
    by (rule pick_dict)
  have idem: "\<And>l c d. (if field_value m l c PNone = PNone then d else field_value m l c PNone) =
      field_value m l c d"
    by (auto simp: field_value_def lookup_present_def split: option.splits if_splits)
  show "parse_report_payload E now1 now2 (PDict m) =
     parse_report_payload E now1 now2 (PDict (legacy_payload
       (field_value m ''lat'' ''latitude'' PNone)
       (field_value m ''lon'' ''longitude'' PNone)
       (field_value m ''fecha'' ''timestamp'' PNone)
       (field_value m ''foto_base64'' ''photo_base64'' PNone)
       (field_value m ''mime'' ''photo_mime_type'' PNone)
       (field_value m ''filename'' ''photo_filename'' PNone)
       (field_value m ''accuracy'' ''accuracy_m'' PNone)))"
    unfolding parse_dict field_value_legacy idem by (rule refl)
  show "parse_report_payload E now1 now2 (PDict (legacy_payload la lo fe fo mi fi ac)) =
    parse_report_payload E now1 now2 (PDict (current_payload la lo fe fo mi fi ac))"
    unfolding parse_dict field_value_legacy field_value_current by (rule refl)
qed

theorem field_resolution_legacy_first_witness:
  "\<forall>E now1 now2.
     parse_report_payload E now1 now2
       (PDict (legacy_payload (PFloat (Finite 10.1)) (PFloat (Finite (- 74.8)))
          (PStr ''2025-08-20T20:00:00Z'') (PStr ''QUJD'') (PStr ''image/jpeg'')
          (PStr ''x.jpg'') (PFloat (Finite 12.3)))) =
     Inr (\<lparr>lat = PFloat (Finite 10.1), lon = PFloat (Finite (- 74.8)),
           fecha = ''2025-08-20T20:00:00Z'', foto_base64 = PStr ''QUJD'',
           mime = PStr ''image/jpeg'', filename = PStr ''x.jpg'',
           accuracy = PFloat (Finite 12.3), created_at = isoformat_seconds now2\<rparr>, [])"
  using field_resolution_legacy_first [THEN conjunct2, THEN conjunct2]
  by (simp only: parse_current_example simp_thms)









text \<open>
  C9. The normalizer is not total on mappings of arbitrary JSON values: with valid
  coordinates and a photo that is the number 5 it raises TypeError (from \<^verbatim>\<open>re.sub\<close> in
  \<^verbatim>\<open>clean_b64\<close>), and with a latitude that is the integer \<open>10^400\<close> it raises
  OverflowError (from \<^verbatim>\<open>float\<close>, which the \<^verbatim>\<open>except\<close> clause does not name).
\<close>

theorem normalizer_raises_on_non_string_photo:
  "parse_report_payload E now1 now2
     (PDict [(''lat'', PFloat (Finite 10.1)), (''lon'', PFloat (Finite (- 74.8))),
             (''foto_base64'', PInt 5)]) = Inl TypeError \<and>
   parse_report_payload E now1 now2
     (PDict [(''lat'', PInt (10 ^ 400)), (''lon'', PFloat (Finite (- 74.8)))]) =
     Inl OverflowError"
  by (simp add: parse_dict fv_simps lp_simps coerce_coord_def range_errors_def
      coerce_accuracy_def float_overflow_bound_def)



end
